theory Spec2Isabelle
  imports Complex_Main
begin

section \<open>Data model of the disruption package\<close>

text \<open>
  The development embeds \<^verbatim>\<open>pkg/controllers/disruption/consolidation.go\<close> and
  \<^verbatim>\<open>pkg/controllers/disruption/emptiness.go\<close>.

  Conventions of the embedding:
  \<^item> a Go pointer that may be nil is an \<open>option\<close>; a nil and an empty slice are both \<open>[]\<close>;
  \<^item> \<^verbatim>\<open>time.Time\<close> and \<^verbatim>\<open>time.Duration\<close> are integers (nanoseconds, the zero
    \<^verbatim>\<open>Time\<close> being 0);
  \<^item> a \<^verbatim>\<open>float64\<close> is a value of a type \<open>'p\<close> of which only a zero, an addition and an
    order are used, and about which nothing is assumed (the classes \<open>zero\<close>, \<open>plus\<close> and
    \<open>ord\<close> carry no law): \<open>+\<close> is the addition of the machine, with whatever rounding it
    does, and \<open><\<close> its comparison;
  \<^item> a Go \<^verbatim>\<open>int\<close> budget is an \<open>int\<close>: the only arithmetic on it is a decrement of a
    value that was tested to be positive, which cannot wrap around;
  \<^item> a nil-pointer dereference or an index out of range is the value \<open>Inl\<close> of a \<open>panic\<close>;
  \<^item> \<^verbatim>\<open>recorder.Publish\<close> appends to the list of events a function returns.
\<close>

type_synonym Time = int
type_synonym Duration = int

datatype panic = NilPointerDereference | IndexOutOfRange

datatype ConsolidationPolicy =
    ConsolidationPolicyWhenUnderutilized
  | ConsolidationPolicyWhenEmpty
  | ConsolidationPolicyOther string

text \<open>
  \<^verbatim>\<open>nodePool.Spec.Disruption\<close>, flattened into the pool. \<^verbatim>\<open>ConsolidateAfter\<close> is a
  \<^verbatim>\<open>*NillableDuration\<close> whose field \<^verbatim>\<open>Duration\<close> is a \<^verbatim>\<open>*time.Duration\<close>:
  \<open>None\<close> is the absent field, \<open>Some None\<close> the field that is present with a nil duration.
\<close>

record NodePool =
  NodePool_Name :: string
  ConsolidationPolicy :: ConsolidationPolicy
  ConsolidateAfter :: "Duration option option"

datatype ConditionStatus = ConditionTrue | ConditionFalse | ConditionUnknown

record Condition =
  Status :: ConditionStatus
  LastTransitionTime :: Time

text \<open>
  The fields of the candidate's \<^verbatim>\<open>NodeClaim\<close> object that the package reads:
  \<^verbatim>\<open>DeletionTimestamp\<close> (a \<^verbatim>\<open>*metav1.Time\<close>) and the result of
  \<^verbatim>\<open>StatusConditions().GetCondition(v1beta1.Empty)\<close> (a \<^verbatim>\<open>*Condition\<close>).
\<close>

record NodeClaim =
  NodeClaim_Name :: string
  DeletionTimestamp :: "Time option"
  EmptyCondition :: "Condition option"

record 'p Offering =
  Offering_CapacityType :: string
  Offering_Zone :: string
  Price :: 'p

record 'p InstanceType =
  InstanceType_Name :: string
  Offerings :: "'p Offering list"

record 'p Candidate =
  Node :: string
  NodeClaim :: NodeClaim
  Annotations :: "string \<rightharpoonup> string"
  nodePool :: NodePool
  pods :: "string list"
  disruptionCost :: 'p
  instanceType :: "'p InstanceType"
  capacityType :: string
  zone :: string

text \<open>
  Modelled from the spec: the requirement set of a replacement (package
  \<^verbatim>\<open>scheduling\<close>, not under src/) maps a label key to the values it permits.
  \<^verbatim>\<open>Get(key).Has(v)\<close> asks whether \<open>v\<close> is permitted, and \<^verbatim>\<open>Add\<close> of an \<^verbatim>\<open>In\<close>
  requirement constrains the key to the given values.
\<close>

type_synonym Requirements = "string \<Rightarrow> string set"

definition Requirements_Get :: "Requirements \<Rightarrow> string \<Rightarrow> string set" where
  "Requirements_Get reqs key = reqs key"

definition Has :: "string set \<Rightarrow> string \<Rightarrow> bool" where
  "Has req v = (v \<in> req)"

definition NewRequirementIn :: "string \<Rightarrow> string list \<Rightarrow> string \<times> string set" where
  "NewRequirementIn key vals = (key, set vals)"

definition Requirements_Add :: "Requirements \<Rightarrow> string \<times> string set \<Rightarrow> Requirements" where
  "Requirements_Add reqs r = reqs(fst r := reqs (fst r) \<inter> snd r)"

text \<open>
  A replacement proposed by the simulator (\<^verbatim>\<open>pscheduling.NodeClaim\<close>); the embedded
  \<^verbatim>\<open>NodeClaimTemplate\<close> is flattened, so \<^verbatim>\<open>InstanceTypeOptions\<close> is one field.
\<close>

record 'p Replacement =
  Requirements :: Requirements
  InstanceTypeOptions :: "'p InstanceType list"

record 'p Results =
  AllNonPendingPodsScheduled :: bool
  NonPendingPodSchedulingErrors :: string
  NewNodeClaims :: "'p Replacement list"

record 'p Command =
  candidates :: "'p Candidate list"
  replacements :: "'p Replacement list"

definition Command_zero :: "'p Command" where
  "Command_zero = \<lparr>candidates = [], replacements = []\<rparr>"

text \<open>The reasons the package gives to \<^verbatim>\<open>disruptionevents.Unconsolidatable\<close>, one per format string.\<close>

datatype Reason =
    AnnotationExists string
  | NodePoolConsolidationDisabled string
  | PodSchedulingErrors string
  | CantRemoveWithoutCreating nat
  | CantReplaceWithCheaperNode
  | SpotToSpotDisabled
  | CantReplaceSpotWithCheaperSpot
  | SpotToSpotRequires nat nat

text \<open>One call of \<^verbatim>\<open>recorder.Publish(disruptionevents.Unconsolidatable(node, nodeClaim, reason)...)\<close>.\<close>

datatype Event = Unconsolidatable string string Reason

definition publishUnconsolidatable :: "'p Candidate \<Rightarrow> Reason \<Rightarrow> Event" where
  "publishUnconsolidatable cn reason = Unconsolidatable (Node cn) (NodeClaim_Name (NodeClaim cn)) reason"

text \<open>
  Modelled from the spec: the annotation key, the capacity-type label key and the two capacity
  types ("standard" and "volatile" capacity) are constants of the API packages, which are not
  under src/. The properties below use only that the two capacity types differ.
\<close>

definition DoNotConsolidateNodeAnnotationKey :: string where
  "DoNotConsolidateNodeAnnotationKey = ''karpenter.sh/do-not-consolidate''"

definition CapacityTypeLabelKey :: string where
  "CapacityTypeLabelKey = ''karpenter.sh/capacity-type''"

definition CapacityTypeSpot :: string where
  "CapacityTypeSpot = ''spot''"

definition CapacityTypeOnDemand :: string where
  "CapacityTypeOnDemand = ''on-demand''"

definition MinInstanceTypesForSpotToSpotConsolidation :: int where
  "MinInstanceTypesForSpotToSpotConsolidation = 15"

section \<open>Emptiness\<close>

text \<open>A Go map read: an absent key reads as the zero value.\<close>

definition annotation :: "(string \<rightharpoonup> string) \<Rightarrow> string \<Rightarrow> string" where
  "annotation m k = (case m k of None \<Rightarrow> [] | Some v \<Rightarrow> v)"

definition budget :: "(string \<rightharpoonup> int) \<Rightarrow> string \<Rightarrow> int" where
  "budget m k = (case m k of None \<Rightarrow> 0 | Some v \<Rightarrow> v)"

text \<open>\<^verbatim>\<open>(*Condition).IsTrue\<close>: false on a nil condition.\<close>

definition IsTrue :: "Condition option \<Rightarrow> bool" where
  "IsTrue c = (case c of None \<Rightarrow> False | Some cond \<Rightarrow> Status cond = ConditionTrue)"

text \<open>\<^verbatim>\<open>(*metav1.Time).IsZero\<close>: true on nil and on the zero time.\<close>

definition IsZero :: "Time option \<Rightarrow> bool" where
  "IsZero t = (case t of None \<Rightarrow> True | Some v \<Rightarrow> v = 0)"

text \<open>
  \<^verbatim>\<open>Emptiness.ShouldDisrupt\<close>, with the clock's reading \<open>now\<close>. The last return evaluates
  \<^verbatim>\<open>IsTrue() && !now.Before(... .Add(*ConsolidateAfter.Duration))\<close>: the right operand runs only
  when the left one is true, and it dereferences \<^verbatim>\<open>ConsolidateAfter\<close> and its \<^verbatim>\<open>Duration\<close>.
\<close>

definition Emptiness_ShouldDisrupt :: "Time \<Rightarrow> 'p Candidate \<Rightarrow> panic + (bool \<times> Event list)" where
  "Emptiness_ShouldDisrupt now c =
    (if ConsolidationPolicy (nodePool c) \<noteq> ConsolidationPolicyWhenEmpty then Inr (False, [])
     else if ConsolidateAfter (nodePool c) \<noteq> None \<and> ConsolidateAfter (nodePool c) = Some None then
       Inr (False, [publishUnconsolidatable c (NodePoolConsolidationDisabled (NodePool_Name (nodePool c)))])
     else if \<not> IsTrue (EmptyCondition (NodeClaim c)) then Inr (False, [])
     else
       (case EmptyCondition (NodeClaim c) of
          None \<Rightarrow> Inl NilPointerDereference
        | Some cond \<Rightarrow>
          (case ConsolidateAfter (nodePool c) of
             None \<Rightarrow> Inl NilPointerDereference
           | Some None \<Rightarrow> Inl NilPointerDereference
           | Some (Some d) \<Rightarrow> Inr (\<not> now < LastTransitionTime cond + d, []))))"

text \<open>
  The loop of \<^verbatim>\<open>Emptiness.ComputeCommand\<close> over \<^verbatim>\<open>emptyCandidates\<close>: \<open>chosen\<close> is the
  slice \<^verbatim>\<open>empty\<close> built so far, \<open>m\<close> the budget mapping, which the loop updates in place.
\<close>

fun emptyLoop :: "(string \<rightharpoonup> int) \<Rightarrow> 'p Candidate list \<Rightarrow> 'p Candidate list
    \<Rightarrow> 'p Candidate list \<times> (string \<rightharpoonup> int)" where
  "emptyLoop m chosen [] = (chosen, m)"
| "emptyLoop m chosen (candidate # rest) =
    (if length (pods candidate) > 0 then emptyLoop m chosen rest
     else if budget m (NodePool_Name (nodePool candidate)) > 0 then
       emptyLoop (m(NodePool_Name (nodePool candidate) \<mapsto> budget m (NodePool_Name (nodePool candidate)) - 1))
         (chosen @ [candidate]) rest
     else emptyLoop m chosen rest)"

text \<open>
  The effects of \<^verbatim>\<open>Emptiness.ComputeCommand\<close> beside its results: the budget mapping it
  leaves behind and the value it sets the eligible-nodes gauge to.
\<close>

record 'p EmptinessOutcome =
  command :: "'p Command"
  err :: "string option"
  disruptionBudgetMapping :: "string \<rightharpoonup> int"
  eligibleNodesGauge :: nat

definition Emptiness_ComputeCommand :: "(string \<rightharpoonup> int) \<Rightarrow> 'p Candidate list \<Rightarrow> 'p EmptinessOutcome" where
  "Emptiness_ComputeCommand m cands =
    (let emptyCandidates =
           filter (\<lambda>cn. IsZero (DeletionTimestamp (NodeClaim cn)) \<and> length (pods cn) = 0) cands;
         (chosen, m') = emptyLoop m [] emptyCandidates
     in \<lparr>command = \<lparr>candidates = chosen, replacements = []\<rparr>, err = None,
         disruptionBudgetMapping = m', eligibleNodesGauge = length cands\<rparr>)"

section \<open>Consolidation\<close>

text \<open>
  Errors are values. \<^verbatim>\<open>fmt.Errorf("..., %w", err)\<close> wraps an error, and
  \<^verbatim>\<open>errors.Is\<close> follows the chain of wrapped errors.
\<close>

datatype error =
    errCandidateDeleting
  | OtherError string
  | UnableToDetermineOffering string string string
  | Wrapped string error

fun errors_Is :: "error \<Rightarrow> error \<Rightarrow> bool" where
  "errors_Is (Wrapped msg inner) target = (Wrapped msg inner = target \<or> errors_Is inner target)"
| "errors_Is e target = (e = target)"

text \<open>
  What \<^verbatim>\<open>computeConsolidation\<close> reads from its receiver and its context. The simulator
  (\<^verbatim>\<open>simulateScheduling\<close>) is an external collaborator: it is a function of the candidates.
  \<^verbatim>\<open>SpotToSpotConsolidation\<close> is the feature gate of \<^verbatim>\<open>options.FromContext(ctx)\<close>.

  Modelled from the spec: the instance-type option set (package \<^verbatim>\<open>cloudprovider\<close>, not under
  src/) supports "compatible-with(requirement)" and "cheaper-than(threshold)" filtering. Whether an
  option has an offering compatible with a requirement set, and the price an option launches at
  under a requirement set, are the parameters \<open>hasCompatibleOffering\<close> and \<open>launchPrice\<close>.
\<close>

record 'p Env =
  simulateScheduling :: "'p Candidate list \<Rightarrow> error + 'p Results"
  SpotToSpotConsolidation :: bool
  hasCompatibleOffering :: "'p InstanceType \<Rightarrow> Requirements \<Rightarrow> bool"
  launchPrice :: "'p InstanceType \<Rightarrow> Requirements \<Rightarrow> 'p"

text \<open>
  Modelled from the spec: \<^verbatim>\<open>InstanceTypes.Compatible\<close> is missing from src/; it keeps the
  options compatible with the requirements, in their order.
\<close>

definition Compatible :: "'p Env \<Rightarrow> 'p InstanceType list \<Rightarrow> Requirements \<Rightarrow> 'p InstanceType list" where
  "Compatible env its reqs = filter (\<lambda>it. hasCompatibleOffering env it reqs) its"

text \<open>
  Modelled from the spec: \<^verbatim>\<open>filterByPrice\<close> is missing from src/; it keeps the options
  strictly cheaper than the given price, in their order ("filter the replacement's instance-type
  options to only those strictly cheaper than candidatePrice").
\<close>

definition filterByPrice :: "('p::ord) Env \<Rightarrow> 'p InstanceType list \<Rightarrow> Requirements \<Rightarrow> 'p \<Rightarrow> 'p InstanceType list" where
  "filterByPrice env options reqs price = filter (\<lambda>it. launchPrice env it reqs < price) options"

text \<open>
  Modelled from the spec: \<^verbatim>\<open>Offerings.Get\<close> is missing from src/; it is the catalogue lookup
  "getOffering(instanceType, capacityType, zone) -> (price, found)".
\<close>

definition Offerings_Get :: "'p Offering list \<Rightarrow> string \<Rightarrow> string \<Rightarrow> 'p Offering option" where
  "Offerings_Get ofs ct z = find (\<lambda>offering. Offering_CapacityType offering = ct \<and> Offering_Zone offering = z) ofs"

text \<open>\<^verbatim>\<open>lo.Slice\<close> of the library samber/lo: the bounds are clamped to the collection.\<close>

definition lo_Slice :: "'a list \<Rightarrow> int \<Rightarrow> int \<Rightarrow> 'a list" where
  "lo_Slice collection start end =
    (let size = int (length collection) in
     if start \<ge> end then []
     else
       let start1 = (if start > size then size else start);
           start2 = (if start1 < 0 then 0 else start1);
           end1 = (if end > size then size else end);
           end2 = (if end1 < 0 then 0 else end1)
       in take (nat end2 - nat start2) (drop (nat start2) collection))"

text \<open>\<^verbatim>\<open>consolidation.ShouldDisrupt\<close>.\<close>

definition consolidation_ShouldDisrupt :: "'p Candidate \<Rightarrow> bool \<times> Event list" where
  "consolidation_ShouldDisrupt cn =
    (if annotation (Annotations cn) DoNotConsolidateNodeAnnotationKey = ''true'' then
       (False, [publishUnconsolidatable cn (AnnotationExists DoNotConsolidateNodeAnnotationKey)])
     else if ConsolidationPolicy (nodePool cn) \<noteq> ConsolidationPolicyWhenUnderutilized then (False, [])
     else if ConsolidateAfter (nodePool cn) \<noteq> None \<and> ConsolidateAfter (nodePool cn) = Some None then
       (False, [publishUnconsolidatable cn (NodePoolConsolidationDisabled (NodePool_Name (nodePool cn)))])
     else (True, []))"

text \<open>The lookup \<^verbatim>\<open>c.instanceType.Offerings.Get(c.capacityType, c.zone)\<close> of a candidate.\<close>

definition candidateOffering :: "'p Candidate \<Rightarrow> 'p Offering option" where
  "candidateOffering c = Offerings_Get (Offerings (instanceType c)) (capacityType c) (zone c)"

text \<open>The loop of \<^verbatim>\<open>getCandidatePrices\<close>, \<open>price\<close> being the sum so far.\<close>

fun getCandidatePricesLoop :: "'p::plus \<Rightarrow> 'p Candidate list \<Rightarrow> error + 'p" where
  "getCandidatePricesLoop price [] = Inr price"
| "getCandidatePricesLoop price (c # rest) =
    (case candidateOffering c of
       None \<Rightarrow> Inl (UnableToDetermineOffering (InstanceType_Name (instanceType c)) (capacityType c) (zone c))
     | Some offering \<Rightarrow> getCandidatePricesLoop (price + Price offering) rest)"

definition getCandidatePrices :: "('p::{zero,plus}) Candidate list \<Rightarrow> error + 'p" where
  "getCandidatePrices cands = getCandidatePricesLoop 0 cands"

text \<open>
  The pattern \<^verbatim>\<open>if len(candidates) == 1 { c.recorder.Publish(Unconsolidatable(candidates[0]...)) }\<close>:
  abandoning a candidate set is narrated in the single-candidate case only.
\<close>

definition publishIfSingle :: "'p Candidate list \<Rightarrow> Reason \<Rightarrow> Event list" where
  "publishIfSingle cands reason =
    (if length cands = 1 then [publishUnconsolidatable (cands ! 0) reason] else [])"

type_synonym 'p Outcome = "panic + (('p Command \<times> error option) \<times> Event list)"

text \<open>
  \<^verbatim>\<open>computeSpotToSpotConsolidation\<close>. The writes to \<^verbatim>\<open>results.NewNodeClaims[0]\<close> go through
  a pointer that the returned \<^verbatim>\<open>replacements\<close> share, so the returned list holds the updated
  replacement. \<^verbatim>\<open>results.NewNodeClaims[0]\<close> and \<^verbatim>\<open>candidates[0]\<close> panic on an empty slice.
\<close>

definition computeSpotToSpotConsolidation :: "('p::ord) Env \<Rightarrow> 'p Candidate list \<Rightarrow> 'p Results \<Rightarrow> 'p \<Rightarrow> 'p Outcome" where
  "computeSpotToSpotConsolidation env cands results candidatePrice =
    (if \<not> SpotToSpotConsolidation env then
       Inr ((Command_zero, None), publishIfSingle cands SpotToSpotDisabled)
     else
       (case NewNodeClaims results of
          [] \<Rightarrow> Inl IndexOutOfRange
        | nc # others \<Rightarrow>
          let reqs = Requirements_Add (Requirements nc) (NewRequirementIn CapacityTypeLabelKey [CapacityTypeSpot]);
              instanceTypeOptionsWithSpotOfferings = Compatible env (InstanceTypeOptions nc) reqs;
              options = filterByPrice env instanceTypeOptionsWithSpotOfferings reqs candidatePrice
          in
            if length options = 0 then
              Inr ((Command_zero, None), publishIfSingle cands CantReplaceSpotWithCheaperSpot)
            else if length cands > 1 then
              Inr ((\<lparr>candidates = cands,
                     replacements = nc\<lparr>Requirements := reqs, InstanceTypeOptions := options\<rparr> # others\<rparr>, None), [])
            else if int (length options) < MinInstanceTypesForSpotToSpotConsolidation then
              (case cands of
                 [] \<Rightarrow> Inl IndexOutOfRange
               | c0 # _ \<Rightarrow>
                 Inr ((Command_zero, None),
                      [publishUnconsolidatable c0
                         (SpotToSpotRequires (nat MinInstanceTypesForSpotToSpotConsolidation) (length options))]))
            else
              Inr ((\<lparr>candidates = cands,
                     replacements =
                       nc\<lparr>Requirements := reqs,
                          InstanceTypeOptions := lo_Slice options 0 MinInstanceTypesForSpotToSpotConsolidation\<rparr>
                       # others\<rparr>, None), [])))"

text \<open>\<^verbatim>\<open>computeConsolidation\<close>.\<close>

definition computeConsolidation :: "('p::{zero,plus,ord}) Env \<Rightarrow> 'p Candidate list \<Rightarrow> 'p Outcome" where
  "computeConsolidation env cands =
    (case simulateScheduling env cands of
       Inl e \<Rightarrow>
         if errors_Is e errCandidateDeleting then Inr ((Command_zero, None), [])
         else Inr ((Command_zero, Some e), [])
     | Inr results \<Rightarrow>
         if \<not> AllNonPendingPodsScheduled results then
           Inr ((Command_zero, None),
                publishIfSingle cands (PodSchedulingErrors (NonPendingPodSchedulingErrors results)))
         else if length (NewNodeClaims results) = 0 then
           Inr ((\<lparr>candidates = cands, replacements = []\<rparr>, None), [])
         else if length (NewNodeClaims results) \<noteq> 1 then
           Inr ((Command_zero, None),
                publishIfSingle cands (CantRemoveWithoutCreating (length (NewNodeClaims results))))
         else
           (case getCandidatePrices cands of
              Inl e \<Rightarrow> Inr ((Command_zero, Some (Wrapped ''getting offering price from candidate node'' e)), [])
            | Inr candidatePrice \<Rightarrow>
              (case NewNodeClaims results of
                 [] \<Rightarrow> Inl IndexOutOfRange
               | nc # others \<Rightarrow>
                 let allExistingAreSpot = list_all (\<lambda>cn. capacityType cn = CapacityTypeSpot) cands in
                 if allExistingAreSpot
                    \<and> Has (Requirements_Get (Requirements nc) CapacityTypeLabelKey) CapacityTypeSpot then
                   computeSpotToSpotConsolidation env cands results candidatePrice
                 else
                   let options = filterByPrice env (InstanceTypeOptions nc) (Requirements nc) candidatePrice in
                   if length options = 0 then
                     Inr ((Command_zero, None), publishIfSingle cands CantReplaceWithCheaperNode)
                   else
                     let ctReq = Requirements_Get (Requirements nc) CapacityTypeLabelKey;
                         reqs = (if Has ctReq CapacityTypeSpot \<and> Has ctReq CapacityTypeOnDemand then
                                   Requirements_Add (Requirements nc)
                                     (NewRequirementIn CapacityTypeLabelKey [CapacityTypeSpot])
                                 else Requirements nc)
                     in Inr ((\<lparr>candidates = cands,
                               replacements =
                                 nc\<lparr>Requirements := reqs, InstanceTypeOptions := options\<rparr> # others\<rparr>,
                              None), []))))"

section \<open>Example inputs\<close>

text \<open>
  Concrete inputs on which the properties below are exercised. Every option of the examples has
  one spot offering; the example environment launches an option at the price of that offering and
  calls an option compatible when one of its offerings has a permitted capacity type. The prices
  of the examples are small whole numbers, taken in \<open>real\<close>: \<^verbatim>\<open>float64\<close> represents them,
  and the sums formed of them, exactly.
\<close>

definition spotOption :: "string \<Rightarrow> real \<Rightarrow> real InstanceType" where
  "spotOption name price =
    \<lparr>InstanceType_Name = name,
     Offerings = [\<lparr>Offering_CapacityType = CapacityTypeSpot, Offering_Zone = ''zone-a'', Price = price\<rparr>]\<rparr>"

definition exampleEnv :: "(real Candidate list \<Rightarrow> error + real Results) \<Rightarrow> real Env" where
  "exampleEnv sim =
    \<lparr>simulateScheduling = sim, SpotToSpotConsolidation = True,
     hasCompatibleOffering =
       (\<lambda>it reqs. list_ex (\<lambda>offering. Offering_CapacityType offering \<in> reqs CapacityTypeLabelKey) (Offerings it)),
     launchPrice = (\<lambda>it reqs. case Offerings it of [] \<Rightarrow> 0 | offering # _ \<Rightarrow> Price offering)\<rparr>"

definition exampleNodePool :: "string \<Rightarrow> ConsolidationPolicy \<Rightarrow> Duration option option \<Rightarrow> NodePool" where
  "exampleNodePool name policy after =
    \<lparr>NodePool_Name = name, ConsolidationPolicy = policy, ConsolidateAfter = after\<rparr>"

definition exampleCandidate :: "string \<Rightarrow> NodePool \<Rightarrow> real Candidate" where
  "exampleCandidate name pool =
    \<lparr>Node = name,
     NodeClaim = \<lparr>NodeClaim_Name = name, DeletionTimestamp = None, EmptyCondition = None\<rparr>,
     Annotations = Map.empty, nodePool = pool, pods = [], disruptionCost = 1,
     instanceType = spotOption ''current'' 100, capacityType = CapacityTypeSpot, zone = ''zone-a''\<rparr>"

definition underutilizedPool :: NodePool where
  "underutilizedPool = exampleNodePool ''default'' ConsolidationPolicyWhenUnderutilized None"

definition exampleRequirements :: Requirements where
  "exampleRequirements = (\<lambda>key. UNIV)(CapacityTypeLabelKey := {CapacityTypeSpot, CapacityTypeOnDemand})"

definition spotRequirements :: Requirements where
  "spotRequirements =
    Requirements_Add exampleRequirements (NewRequirementIn CapacityTypeLabelKey [CapacityTypeSpot])"

definition exampleResults :: "real InstanceType list \<Rightarrow> nat \<Rightarrow> real Results" where
  "exampleResults options n =
    \<lparr>AllNonPendingPodsScheduled = True, NonPendingPodSchedulingErrors = [],
     NewNodeClaims = replicate n \<lparr>Requirements = exampleRequirements, InstanceTypeOptions = options\<rparr>\<rparr>"

text \<open>Sixteen options, all cheaper than 100, listed from the most expensive to the cheapest.\<close>

definition sixteenOptions :: "real InstanceType list" where
  "sixteenOptions =
    [spotOption ''p16'' 16, spotOption ''p15'' 15, spotOption ''p14'' 14, spotOption ''p13'' 13,
     spotOption ''p12'' 12, spotOption ''p11'' 11, spotOption ''p10'' 10, spotOption ''p09'' 9,
     spotOption ''p08'' 8, spotOption ''p07'' 7, spotOption ''p06'' 6, spotOption ''p05'' 5,
     spotOption ''p04'' 4, spotOption ''p03'' 3, spotOption ''p02'' 2, spotOption ''p01'' 1]"

text \<open>
  A candidate of a \<^verbatim>\<open>WhenEmpty\<close> pool with a 30 ns cooldown, empty since time 10, that carries
  the do-not-consolidate annotation.
\<close>

definition markedEmptyCandidate :: "real Candidate" where
  "markedEmptyCandidate =
    (exampleCandidate ''n1'' (exampleNodePool ''default'' ConsolidationPolicyWhenEmpty (Some (Some 30))))
      \<lparr>NodeClaim := \<lparr>NodeClaim_Name = ''n1'', DeletionTimestamp = None,
                     EmptyCondition = Some \<lparr>Status = ConditionTrue, LastTransitionTime = 10\<rparr>\<rparr>,
       Annotations := [DoNotConsolidateNodeAnnotationKey \<mapsto> ''true'']\<rparr>"

text \<open>A candidate of a \<^verbatim>\<open>WhenEmpty\<close> pool whose \<^verbatim>\<open>ConsolidateAfter\<close> is present with a nil duration.\<close>

definition disabledCandidate :: "real Candidate" where
  "disabledCandidate =
    exampleCandidate ''n1'' (exampleNodePool ''default'' ConsolidationPolicyWhenEmpty (Some None))"

text \<open>An empty candidate of a \<^verbatim>\<open>WhenEmpty\<close> pool that has no \<^verbatim>\<open>ConsolidateAfter\<close> at all.\<close>

definition noCooldownCandidate :: "real Candidate" where
  "noCooldownCandidate =
    (exampleCandidate ''n1'' (exampleNodePool ''default'' ConsolidationPolicyWhenEmpty None))
      \<lparr>NodeClaim := \<lparr>NodeClaim_Name = ''n1'', DeletionTimestamp = None,
                     EmptyCondition = Some \<lparr>Status = ConditionTrue, LastTransitionTime = 10\<rparr>\<rparr>\<rparr>"

section \<open>Auxiliary notions for the proofs\<close>

text \<open>One iteration of the loop of \<^verbatim>\<open>Emptiness.ComputeCommand\<close>: the test and the decrement.\<close>

definition taken :: "(string \<rightharpoonup> int) \<Rightarrow> 'p Candidate \<Rightarrow> bool" where
  "taken m c = (length (pods c) = 0 \<and> budget m (NodePool_Name (nodePool c)) > 0)"

definition consume :: "(string \<rightharpoonup> int) \<Rightarrow> string \<Rightarrow> (string \<rightharpoonup> int)" where
  "consume m g = m(g \<mapsto> budget m g - 1)"

definition inPool :: "string \<Rightarrow> 'p Candidate \<Rightarrow> bool" where
  "inPool k c = (NodePool_Name (nodePool c) = k)"

section \<open>Eligibility\<close>

text \<open>
  Claim C5, as amended. For every candidate carrying the do-not-consolidate annotation,
  \<^verbatim>\<open>consolidation.ShouldDisrupt\<close> returns false and publishes one event that names the
  annotation, whatever the policy fields of the group are (the check comes first).
  \<^verbatim>\<open>Emptiness.ShouldDisrupt\<close> does not read the annotations: its result is the same for any
  annotations the candidate may carry.
\<close>

theorem ShouldDisrupt_do_not_consolidate_marker:
  "annotation (Annotations cn) DoNotConsolidateNodeAnnotationKey = ''true'' \<Longrightarrow>
     consolidation_ShouldDisrupt cn =
       (False, [publishUnconsolidatable cn (AnnotationExists DoNotConsolidateNodeAnnotationKey)])
     \<and> Emptiness_ShouldDisrupt now (cn\<lparr>Annotations := a\<rparr>) = Emptiness_ShouldDisrupt now cn"
  by (simp add: consolidation_ShouldDisrupt_def Emptiness_ShouldDisrupt_def publishUnconsolidatable_def
      split: option.splits)

theorem ShouldDisrupt_do_not_consolidate_marker_witness:
  "annotation (Annotations markedEmptyCandidate) DoNotConsolidateNodeAnnotationKey = ''true''
   \<and> consolidation_ShouldDisrupt markedEmptyCandidate =
       (False, [Unconsolidatable ''n1'' ''n1'' (AnnotationExists DoNotConsolidateNodeAnnotationKey)])
   \<and> Emptiness_ShouldDisrupt 100 (markedEmptyCandidate\<lparr>Annotations := Map.empty\<rparr>) =
       Emptiness_ShouldDisrupt 100 markedEmptyCandidate"
proof -
  have marked: "annotation (Annotations markedEmptyCandidate) DoNotConsolidateNodeAnnotationKey = ''true''"
    by (simp add: annotation_def markedEmptyCandidate_def)
  show ?thesis
    using marked ShouldDisrupt_do_not_consolidate_marker[OF marked, of 100 Map.empty]
    by (simp add: publishUnconsolidatable_def markedEmptyCandidate_def exampleCandidate_def)
qed

text \<open>
  The emptiness predicate accepts a candidate that carries the do-not-consolidate annotation:
  the group's policy is \<^verbatim>\<open>WhenEmpty\<close>, the candidate has been empty since time 10 and the
  cooldown of 30 has elapsed at time 100. No event is published.
\<close>

theorem Emptiness_ShouldDisrupt_ignores_marker_counterexample:
  "annotation (Annotations markedEmptyCandidate) DoNotConsolidateNodeAnnotationKey = ''true''
   \<and> Emptiness_ShouldDisrupt 100 markedEmptyCandidate = Inr (True, [])"
  by (simp add: annotation_def Emptiness_ShouldDisrupt_def markedEmptyCandidate_def
      exampleCandidate_def exampleNodePool_def IsTrue_def)

text \<open>
  Claim C6, as amended. For every candidate whose group's \<^verbatim>\<open>ConsolidateAfter\<close> is present
  with a nil duration, both predicates return false, whatever the candidate's cost, pods and
  conditions are. The event that reports the disabled consolidation is published only when the
  group's policy is the one of the method (and, for consolidation, when the candidate does not
  carry the do-not-consolidate annotation, which is reported instead); on a policy mismatch
  nothing is published.
\<close>

theorem ShouldDisrupt_consolidateAfter_disabled:
  "ConsolidateAfter (nodePool cn) = Some None \<Longrightarrow>
     consolidation_ShouldDisrupt cn =
       (False,
        if annotation (Annotations cn) DoNotConsolidateNodeAnnotationKey = ''true'' then
          [publishUnconsolidatable cn (AnnotationExists DoNotConsolidateNodeAnnotationKey)]
        else if ConsolidationPolicy (nodePool cn) \<noteq> ConsolidationPolicyWhenUnderutilized then []
        else [publishUnconsolidatable cn (NodePoolConsolidationDisabled (NodePool_Name (nodePool cn)))])
     \<and> Emptiness_ShouldDisrupt now cn =
       Inr (False,
            if ConsolidationPolicy (nodePool cn) \<noteq> ConsolidationPolicyWhenEmpty then []
            else [publishUnconsolidatable cn (NodePoolConsolidationDisabled (NodePool_Name (nodePool cn)))])"
  by (simp add: consolidation_ShouldDisrupt_def Emptiness_ShouldDisrupt_def)

theorem ShouldDisrupt_consolidateAfter_disabled_witness:
  "ConsolidateAfter (nodePool disabledCandidate) = Some None
   \<and> consolidation_ShouldDisrupt disabledCandidate = (False, [])
   \<and> Emptiness_ShouldDisrupt 100 disabledCandidate =
       Inr (False, [Unconsolidatable ''n1'' ''n1'' (NodePoolConsolidationDisabled ''default'')])"
proof -
  have disabled: "ConsolidateAfter (nodePool disabledCandidate) = Some None"
    by (simp add: disabledCandidate_def exampleCandidate_def exampleNodePool_def)
  show ?thesis
    using disabled ShouldDisrupt_consolidateAfter_disabled[OF disabled, of 100]
    by (simp add: disabledCandidate_def exampleCandidate_def exampleNodePool_def annotation_def
        publishUnconsolidatable_def)
qed

text \<open>
  The consolidation predicate rejects a candidate of a \<^verbatim>\<open>WhenEmpty\<close> group whose
  \<^verbatim>\<open>ConsolidateAfter\<close> is present with a nil duration without publishing any event: the
  policy mismatch is decided first, and it is silent.
\<close>

theorem consolidation_ShouldDisrupt_disabled_silent_counterexample:
  "ConsolidateAfter (nodePool disabledCandidate) = Some None
   \<and> consolidation_ShouldDisrupt disabledCandidate = (False, [])"
  by (simp add: consolidation_ShouldDisrupt_def disabledCandidate_def exampleCandidate_def
      exampleNodePool_def annotation_def)

text \<open>
  Claim C10. \<^verbatim>\<open>Emptiness.ShouldDisrupt\<close> panics exactly on the candidates whose group has the
  policy \<^verbatim>\<open>WhenEmpty\<close> and no \<^verbatim>\<open>ConsolidateAfter\<close> at all, and whose Empty condition is
  true, so that the cooldown comparison runs: the panic is the nil-pointer dereference of
  \<^verbatim>\<open>ConsolidateAfter\<close>. In particular it returns for every candidate whose group has a
  \<^verbatim>\<open>ConsolidateAfter\<close>, and the guard before the comparison does not cover the absent field.
\<close>

theorem Emptiness_ShouldDisrupt_panics_iff:
  "(Emptiness_ShouldDisrupt now c = Inl p) =
     (p = NilPointerDereference
      \<and> ConsolidationPolicy (nodePool c) = ConsolidationPolicyWhenEmpty
      \<and> ConsolidateAfter (nodePool c) = None
      \<and> IsTrue (EmptyCondition (NodeClaim c)))"
  by (auto simp: Emptiness_ShouldDisrupt_def IsTrue_def split: option.splits)

theorem Emptiness_ShouldDisrupt_panics_iff_witness:
  "ConsolidationPolicy (nodePool noCooldownCandidate) = ConsolidationPolicyWhenEmpty
   \<and> ConsolidateAfter (nodePool noCooldownCandidate) = None
   \<and> Emptiness_ShouldDisrupt 100 noCooldownCandidate = Inl NilPointerDereference"
  using Emptiness_ShouldDisrupt_panics_iff[of 100 noCooldownCandidate NilPointerDereference]
  by (simp add: noCooldownCandidate_def exampleCandidate_def exampleNodePool_def IsTrue_def)

section \<open>The emptiness planner and its budget\<close>

lemma emptyLoop_step:
  "emptyLoop m chosen (c # cs) =
     (if taken m c then emptyLoop (consume m (NodePool_Name (nodePool c))) (chosen @ [c]) cs
      else emptyLoop m chosen cs)"
  by (auto simp: taken_def consume_def)

declare emptyLoop.simps(2) [simp del]

lemma budget_consume: "budget (consume m g) k = (if k = g then budget m g - 1 else budget m k)"
  by (simp add: budget_def consume_def)

lemma consume_other: "k \<noteq> g \<Longrightarrow> consume m g k = m k"
  by (simp add: consume_def)

text \<open>The slice built so far is only appended to: the loop can be read from an empty one.\<close>

lemma emptyLoop_acc:
  "emptyLoop m chosen cs = (chosen @ fst (emptyLoop m [] cs), snd (emptyLoop m [] cs))"
proof (induction cs arbitrary: m chosen)
  case Nil
  then show ?case by simp
next
  case (Cons c cs)
  let ?m = "consume m (NodePool_Name (nodePool c))"
  show ?case
  proof (cases "taken m c")
    case True
    have l: "emptyLoop ?m (chosen @ [c]) cs =
        ((chosen @ [c]) @ fst (emptyLoop ?m [] cs), snd (emptyLoop ?m [] cs))"
      by (rule Cons.IH)
    have r: "emptyLoop ?m ([] @ [c]) cs =
        (([] @ [c]) @ fst (emptyLoop ?m [] cs), snd (emptyLoop ?m [] cs))"
      by (rule Cons.IH)
    show ?thesis unfolding emptyLoop_step using True l r by simp
  next
    case False
    show ?thesis unfolding emptyLoop_step using False Cons.IH[of m chosen] by simp
  qed
qed

lemma emptyLoop_taken:
  "taken m c \<Longrightarrow> emptyLoop m [] (c # cs) =
     (c # fst (emptyLoop (consume m (NodePool_Name (nodePool c))) [] cs),
      snd (emptyLoop (consume m (NodePool_Name (nodePool c))) [] cs))"
  using emptyLoop_acc[of "consume m (NodePool_Name (nodePool c))" "[c]" cs]
  unfolding emptyLoop_step by simp

lemma emptyLoop_skipped: "\<not> taken m c \<Longrightarrow> emptyLoop m [] (c # cs) = emptyLoop m [] cs"
  unfolding emptyLoop_step by simp

text \<open>Every unit a pool loses is a candidate of that pool in the output.\<close>

lemma emptyLoop_budget:
  "budget (snd (emptyLoop m [] cs)) k =
     budget m k - int (length (filter (inPool k) (fst (emptyLoop m [] cs))))"
proof (induction cs arbitrary: m)
  case Nil
  then show ?case by simp
next
  case (Cons c cs)
  let ?g = "NodePool_Name (nodePool c)"
  show ?case
  proof (cases "taken m c")
    case True
    show ?thesis
      using Cons.IH[of "consume m ?g"]
      by (simp add: emptyLoop_taken[OF True] budget_consume inPool_def)
  next
    case False
    show ?thesis using Cons.IH[of m] by (simp add: emptyLoop_skipped[OF False])
  qed
qed

lemma emptyLoop_nonneg:
  "0 \<le> budget m k \<Longrightarrow> 0 \<le> budget (snd (emptyLoop m [] cs)) k"
proof (induction cs arbitrary: m)
  case Nil
  then show ?case by simp
next
  case (Cons c cs)
  let ?g = "NodePool_Name (nodePool c)"
  show ?case
  proof (cases "taken m c")
    case True
    then have "0 \<le> budget (consume m ?g) k"
      using Cons.prems by (simp add: budget_consume taken_def)
    then show ?thesis
      using Cons.IH[of "consume m ?g"] by (simp add: emptyLoop_taken[OF True])
  next
    case False
    show ?thesis using Cons.IH[of m] Cons.prems by (simp add: emptyLoop_skipped[OF False])
  qed
qed

lemma emptyLoop_untouched:
  "budget m k \<le> 0 \<Longrightarrow> snd (emptyLoop m [] cs) k = m k"
proof (induction cs arbitrary: m)
  case Nil
  then show ?case by simp
next
  case (Cons c cs)
  let ?g = "NodePool_Name (nodePool c)"
  show ?case
  proof (cases "taken m c")
    case True
    then have ne: "k \<noteq> ?g" using Cons.prems by (auto simp: taken_def)
    then have "budget (consume m ?g) k \<le> 0"
      using Cons.prems by (simp add: budget_consume)
    then have "snd (emptyLoop (consume m ?g) [] cs) k = consume m ?g k"
      by (rule Cons.IH)
    then show ?thesis
      using ne by (simp add: emptyLoop_taken[OF True] consume_other)
  next
    case False
    show ?thesis using Cons.IH[of m] Cons.prems by (simp add: emptyLoop_skipped[OF False])
  qed
qed

text \<open>A pool gives up as many candidates as it has empty ones, up to its positive budget.\<close>

lemma emptyLoop_count:
  "length (filter (inPool k) (fst (emptyLoop m [] cs))) =
     min (length (filter (\<lambda>c. inPool k c \<and> length (pods c) = 0) cs)) (nat (budget m k))"
proof (induction cs arbitrary: m)
  case Nil
  then show ?case by simp
next
  case (Cons c cs)
  let ?g = "NodePool_Name (nodePool c)"
  show ?case
  proof (cases "taken m c")
    case True
    show ?thesis
      using Cons.IH[of "consume m ?g"] True
      by (auto simp: emptyLoop_taken[OF True] budget_consume inPool_def taken_def)
  next
    case False
    show ?thesis using Cons.IH[of m] False
      by (auto simp: emptyLoop_skipped[OF False] inPool_def taken_def)
  qed
qed

lemma Emptiness_ComputeCommand_loop:
  "disruptionBudgetMapping (Emptiness_ComputeCommand m cands) =
     snd (emptyLoop m [] (filter (\<lambda>cn. IsZero (DeletionTimestamp (NodeClaim cn)) \<and> length (pods cn) = 0) cands))"
  "candidates (command (Emptiness_ComputeCommand m cands)) =
     fst (emptyLoop m [] (filter (\<lambda>cn. IsZero (DeletionTimestamp (NodeClaim cn)) \<and> length (pods cn) = 0) cands))"
  by (simp_all add: Emptiness_ComputeCommand_def split: prod.splits)

text \<open>
  Claim C7. Given three candidates of the same group, each with no bound pod and no pending
  deletion, and a budget of 2 for that group, \<^verbatim>\<open>Emptiness.ComputeCommand\<close> returns the
  command that holds the first two candidates in their input order and no replacement, with no
  error, and leaves the group's budget at 0 (the other entries are untouched).
\<close>

theorem Emptiness_ComputeCommand_three_candidates_budget_two:
  assumes "NodePool_Name (nodePool c1) = g" "NodePool_Name (nodePool c2) = g"
    "NodePool_Name (nodePool c3) = g"
    "pods c1 = []" "pods c2 = []" "pods c3 = []"
    "IsZero (DeletionTimestamp (NodeClaim c1))" "IsZero (DeletionTimestamp (NodeClaim c2))"
    "IsZero (DeletionTimestamp (NodeClaim c3))"
    "m g = Some 2"
  shows "Emptiness_ComputeCommand m [c1, c2, c3] =
     \<lparr>command = \<lparr>candidates = [c1, c2], replacements = []\<rparr>, err = None,
      disruptionBudgetMapping = m(g \<mapsto> 0), eligibleNodesGauge = 3\<rparr>"
  using assms by (simp add: Emptiness_ComputeCommand_def budget_def emptyLoop.simps(2))

theorem Emptiness_ComputeCommand_three_candidates_budget_two_witness:
  "Emptiness_ComputeCommand [''default'' \<mapsto> 2]
     [exampleCandidate ''n1'' underutilizedPool, exampleCandidate ''n2'' underutilizedPool,
      exampleCandidate ''n3'' underutilizedPool] =
     \<lparr>command = \<lparr>candidates = [exampleCandidate ''n1'' underutilizedPool,
                                exampleCandidate ''n2'' underutilizedPool], replacements = []\<rparr>,
      err = None, disruptionBudgetMapping = [''default'' \<mapsto> 0], eligibleNodesGauge = 3\<rparr>"
  using Emptiness_ComputeCommand_three_candidates_budget_two
    [of "exampleCandidate ''n1'' underutilizedPool" "''default''"
        "exampleCandidate ''n2'' underutilizedPool" "exampleCandidate ''n3'' underutilizedPool"
        "[''default'' \<mapsto> 2]"]
  by (simp add: exampleCandidate_def underutilizedPool_def exampleNodePool_def IsZero_def)

text \<open>
  Claim C8. For every budget mapping, candidate list and group \<open>k\<close>,
  \<^verbatim>\<open>Emptiness.ComputeCommand\<close> never raises the entry of \<open>k\<close>; it leaves a non-negative
  entry non-negative; it leaves an entry that is zero, negative or absent exactly as it was; and
  the entry drops by one for each candidate of \<open>k\<close> in the command, whose number is the number
  of empty, not deleting candidates of \<open>k\<close>, capped by the positive part of the entry.
\<close>

theorem Emptiness_ComputeCommand_budget_only_decrements:
  "budget (disruptionBudgetMapping (Emptiness_ComputeCommand m cands)) k \<le> budget m k
   \<and> (0 \<le> budget m k \<longrightarrow> 0 \<le> budget (disruptionBudgetMapping (Emptiness_ComputeCommand m cands)) k)
   \<and> (budget m k \<le> 0 \<longrightarrow> disruptionBudgetMapping (Emptiness_ComputeCommand m cands) k = m k)
   \<and> budget (disruptionBudgetMapping (Emptiness_ComputeCommand m cands)) k =
       budget m k - int (length (filter (\<lambda>c. NodePool_Name (nodePool c) = k)
                                   (candidates (command (Emptiness_ComputeCommand m cands)))))
   \<and> length (filter (\<lambda>c. NodePool_Name (nodePool c) = k)
               (candidates (command (Emptiness_ComputeCommand m cands)))) =
       min (length (filter (\<lambda>c. IsZero (DeletionTimestamp (NodeClaim c)) \<and> length (pods c) = 0
                                 \<and> NodePool_Name (nodePool c) = k) cands))
           (nat (budget m k))"
proof -
  let ?cs = "filter (\<lambda>cn. IsZero (DeletionTimestamp (NodeClaim cn)) \<and> length (pods cn) = 0) cands"
  have eligible: "filter (\<lambda>c. inPool k c \<and> length (pods c) = 0) ?cs =
      filter (\<lambda>c. IsZero (DeletionTimestamp (NodeClaim c)) \<and> length (pods c) = 0
                   \<and> NodePool_Name (nodePool c) = k) cands"
    by (auto simp: inPool_def intro: filter_cong)
  have units: "budget (snd (emptyLoop m [] ?cs)) k =
      budget m k - int (length (filter (inPool k) (fst (emptyLoop m [] ?cs))))"
    by (rule emptyLoop_budget)
  have count: "length (filter (inPool k) (fst (emptyLoop m [] ?cs))) =
      min (length (filter (\<lambda>c. IsZero (DeletionTimestamp (NodeClaim c)) \<and> length (pods c) = 0
                                \<and> NodePool_Name (nodePool c) = k) cands)) (nat (budget m k))"
    using emptyLoop_count[of k m ?cs] unfolding eligible .
  have pool: "inPool k = (\<lambda>c. NodePool_Name (nodePool c) = k)"
    by (rule ext) (simp add: inPool_def)
  show ?thesis
    unfolding Emptiness_ComputeCommand_loop
    using units count emptyLoop_nonneg[of m k ?cs] emptyLoop_untouched[of m k ?cs]
    unfolding pool by simp
qed

theorem Emptiness_ComputeCommand_budget_only_decrements_witness:
  "budget (disruptionBudgetMapping (Emptiness_ComputeCommand [''default'' \<mapsto> 2, ''other'' \<mapsto> - 1]
      [exampleCandidate ''n1'' underutilizedPool,
       exampleCandidate ''n2'' (exampleNodePool ''other'' ConsolidationPolicyWhenEmpty None)])) ''default'' = 1
   \<and> disruptionBudgetMapping (Emptiness_ComputeCommand [''default'' \<mapsto> 2, ''other'' \<mapsto> - 1]
      [exampleCandidate ''n1'' underutilizedPool,
       exampleCandidate ''n2'' (exampleNodePool ''other'' ConsolidationPolicyWhenEmpty None)]) ''other'' = Some (- 1)"
  using Emptiness_ComputeCommand_budget_only_decrements
    [of "[''default'' \<mapsto> 2, ''other'' \<mapsto> - 1]"
        "[exampleCandidate ''n1'' underutilizedPool,
          exampleCandidate ''n2'' (exampleNodePool ''other'' ConsolidationPolicyWhenEmpty None)]"
        "''default''"]
    Emptiness_ComputeCommand_budget_only_decrements
    [of "[''default'' \<mapsto> 2, ''other'' \<mapsto> - 1]"
        "[exampleCandidate ''n1'' underutilizedPool,
          exampleCandidate ''n2'' (exampleNodePool ''other'' ConsolidationPolicyWhenEmpty None)]"
        "''other''"]
  by (simp add: budget_def exampleCandidate_def underutilizedPool_def exampleNodePool_def IsZero_def)

section \<open>The consolidation planner\<close>

text \<open>
  Claim C9. When the simulator fails with an error that is (or wraps) the sentinel
  \<^verbatim>\<open>errCandidateDeleting\<close>, \<^verbatim>\<open>computeConsolidation\<close> returns the empty command and no
  error; any other simulator error is returned as it is, with the empty command. Nothing is
  published in either case.
\<close>

theorem computeConsolidation_simulator_error:
  "simulateScheduling env cands = Inl e \<Longrightarrow>
     computeConsolidation env cands =
       (if errors_Is e errCandidateDeleting then Inr ((Command_zero, None), [])
        else Inr ((Command_zero, Some e), []))"
  by (simp add: computeConsolidation_def)

theorem computeConsolidation_simulator_error_witness:
  "computeConsolidation (exampleEnv (\<lambda>cs. Inl (Wrapped ''simulating'' errCandidateDeleting)))
      [exampleCandidate ''n1'' underutilizedPool] = Inr ((Command_zero, None), [])
   \<and> computeConsolidation (exampleEnv (\<lambda>cs. Inl (OtherError ''timeout'')))
      [exampleCandidate ''n1'' underutilizedPool] = Inr ((Command_zero, Some (OtherError ''timeout'')), [])"
  using computeConsolidation_simulator_error
      [of "exampleEnv (\<lambda>cs. Inl (Wrapped ''simulating'' errCandidateDeleting))"
          "[exampleCandidate ''n1'' underutilizedPool]" "Wrapped ''simulating'' errCandidateDeleting"]
    computeConsolidation_simulator_error
      [of "exampleEnv (\<lambda>cs. Inl (OtherError ''timeout''))"
          "[exampleCandidate ''n1'' underutilizedPool]" "OtherError ''timeout''"]
  by (simp add: exampleEnv_def)

text \<open>
  Claim C2. For every candidate set on which the simulator succeeds, schedules every non-pending
  pod and proposes no replacement, \<^verbatim>\<open>computeConsolidation\<close> returns, with no error, the
  command whose candidates are the input candidates and whose replacements are empty.
\<close>

theorem computeConsolidation_delete_only:
  "simulateScheduling env cands = Inr results \<Longrightarrow> AllNonPendingPodsScheduled results \<Longrightarrow>
   NewNodeClaims results = [] \<Longrightarrow>
     computeConsolidation env cands = Inr ((\<lparr>candidates = cands, replacements = []\<rparr>, None), [])"
  by (simp add: computeConsolidation_def)

theorem computeConsolidation_delete_only_witness:
  "computeConsolidation (exampleEnv (\<lambda>cs. Inr (exampleResults [] 0)))
      [exampleCandidate ''n1'' underutilizedPool, exampleCandidate ''n2'' underutilizedPool] =
     Inr ((\<lparr>candidates = [exampleCandidate ''n1'' underutilizedPool,
                            exampleCandidate ''n2'' underutilizedPool],
            replacements = []\<rparr>, None), [])"
  using computeConsolidation_delete_only
      [of "exampleEnv (\<lambda>cs. Inr (exampleResults [] 0))"
          "[exampleCandidate ''n1'' underutilizedPool, exampleCandidate ''n2'' underutilizedPool]"
          "exampleResults [] 0"]
  by (simp add: exampleEnv_def exampleResults_def)

text \<open>What \<^verbatim>\<open>computeSpotToSpotConsolidation\<close> returns has no more replacements than the simulator proposed.\<close>

lemma computeSpotToSpotConsolidation_replacements:
  "computeSpotToSpotConsolidation env cands results price = Inr ((cmd, e), evs) \<Longrightarrow>
     length (replacements cmd) \<le> length (NewNodeClaims results)"
  by (auto simp: computeSpotToSpotConsolidation_def Command_zero_def Let_def
      split: if_splits list.splits)

lemma computeConsolidation_replacements:
  "computeConsolidation env cands = Inr ((cmd, e), evs) \<Longrightarrow> length (replacements cmd) \<le> 1"
  by (auto simp: computeConsolidation_def Command_zero_def Let_def
      split: sum.splits if_splits list.splits dest!: computeSpotToSpotConsolidation_replacements)

text \<open>The sixteen example options on the spot-to-spot path of a single candidate.\<close>

lemma Compatible_sixteenOptions:
  "Compatible (exampleEnv sim) sixteenOptions spotRequirements = sixteenOptions"
  by (simp add: Compatible_def exampleEnv_def sixteenOptions_def spotOption_def spotRequirements_def
      Requirements_Add_def NewRequirementIn_def exampleRequirements_def CapacityTypeSpot_def
      CapacityTypeLabelKey_def)

lemma filterByPrice_sixteenOptions:
  "filterByPrice (exampleEnv sim) sixteenOptions spotRequirements 100 = sixteenOptions"
  by (simp add: filterByPrice_def exampleEnv_def sixteenOptions_def spotOption_def)

lemma computeSpotToSpotConsolidation_sixteenOptions:
  "computeSpotToSpotConsolidation (exampleEnv sim) [c] (exampleResults sixteenOptions 1) 100 =
    Inr ((\<lparr>candidates = [c],
           replacements = [\<lparr>Requirements = spotRequirements,
                            InstanceTypeOptions = take 15 sixteenOptions\<rparr>]\<rparr>, None), [])"
proof -
  have len: "length sixteenOptions = 16"
    by (simp add: sixteenOptions_def)
  have ne: "sixteenOptions \<noteq> []"
    using len by auto
  have gate: "SpotToSpotConsolidation (exampleEnv sim)"
    by (simp add: exampleEnv_def)
  show ?thesis
    using Compatible_sixteenOptions[of sim] filterByPrice_sixteenOptions[of sim] len ne gate
    by (simp add: computeSpotToSpotConsolidation_def exampleResults_def Let_def
        spotRequirements_def[symmetric] lo_Slice_def MinInstanceTypesForSpotToSpotConsolidation_def)
qed

lemma getCandidatePrices_exampleCandidate:
  "getCandidatePrices [exampleCandidate name pool] = Inr 100"
  by (simp add: getCandidatePrices_def candidateOffering_def Offerings_Get_def exampleCandidate_def
      spotOption_def)

lemma computeConsolidation_sixteenOptions:
  "computeConsolidation (exampleEnv (\<lambda>cs. Inr (exampleResults sixteenOptions 1)))
      [exampleCandidate ''n1'' underutilizedPool] =
    Inr ((\<lparr>candidates = [exampleCandidate ''n1'' underutilizedPool],
           replacements = [\<lparr>Requirements = spotRequirements,
                            InstanceTypeOptions = take 15 sixteenOptions\<rparr>]\<rparr>, None), [])"
proof -
  let ?env = "exampleEnv (\<lambda>cs. Inr (exampleResults sixteenOptions 1))"
  have sim: "simulateScheduling ?env [exampleCandidate ''n1'' underutilizedPool] =
      Inr (exampleResults sixteenOptions 1)"
    by (simp add: exampleEnv_def)
  have res: "AllNonPendingPodsScheduled (exampleResults sixteenOptions 1)"
    "NewNodeClaims (exampleResults sixteenOptions 1) =
       [\<lparr>Requirements = exampleRequirements, InstanceTypeOptions = sixteenOptions\<rparr>]"
    by (simp_all add: exampleResults_def)
  have spot: "capacityType (exampleCandidate ''n1'' underutilizedPool) = CapacityTypeSpot"
    "Has (Requirements_Get exampleRequirements CapacityTypeLabelKey) CapacityTypeSpot"
    by (simp_all add: exampleCandidate_def Has_def Requirements_Get_def exampleRequirements_def)
  show ?thesis
    unfolding computeConsolidation_def sim
    using res spot getCandidatePrices_exampleCandidate[of "''n1''" underutilizedPool]
      computeSpotToSpotConsolidation_sixteenOptions
        [of "\<lambda>cs. Inr (exampleResults sixteenOptions 1)" "exampleCandidate ''n1'' underutilizedPool"]
    by simp
qed

text \<open>
  Claim C3. For every candidate set on which the simulator succeeds, schedules every non-pending
  pod and proposes two or more replacements, \<^verbatim>\<open>computeConsolidation\<close> returns the empty
  command and no error (and reports the number of replacements in the single-candidate case).
  Every command that \<^verbatim>\<open>computeConsolidation\<close> returns carries at most one replacement.
\<close>

theorem computeConsolidation_at_most_one_replacement:
  "(simulateScheduling env cands = Inr results \<and> AllNonPendingPodsScheduled results
      \<and> 2 \<le> length (NewNodeClaims results) \<longrightarrow>
      computeConsolidation env cands =
        Inr ((Command_zero, None),
             publishIfSingle cands (CantRemoveWithoutCreating (length (NewNodeClaims results)))))
   \<and> (computeConsolidation env cands = Inr ((cmd, e), evs) \<longrightarrow> length (replacements cmd) \<le> 1)"
proof (intro conjI impI)
  assume h: "simulateScheduling env cands = Inr results \<and> AllNonPendingPodsScheduled results
      \<and> 2 \<le> length (NewNodeClaims results)"
  then show "computeConsolidation env cands =
      Inr ((Command_zero, None),
           publishIfSingle cands (CantRemoveWithoutCreating (length (NewNodeClaims results))))"
    by (cases "NewNodeClaims results") (auto simp: computeConsolidation_def)
next
  assume "computeConsolidation env cands = Inr ((cmd, e), evs)"
  then show "length (replacements cmd) \<le> 1"
    by (rule computeConsolidation_replacements)
qed

theorem computeConsolidation_at_most_one_replacement_witness:
  "computeConsolidation (exampleEnv (\<lambda>cs. Inr (exampleResults sixteenOptions 2)))
      [exampleCandidate ''n1'' underutilizedPool] =
     Inr ((Command_zero, None), [Unconsolidatable ''n1'' ''n1'' (CantRemoveWithoutCreating 2)])
   \<and> length (replacements \<lparr>candidates = [exampleCandidate ''n1'' underutilizedPool],
                            replacements = [\<lparr>Requirements = spotRequirements,
                                             InstanceTypeOptions = take 15 sixteenOptions\<rparr>]\<rparr>) \<le> 1"
proof -
  let ?c = "exampleCandidate ''n1'' underutilizedPool"
  have two: "simulateScheduling (exampleEnv (\<lambda>cs. Inr (exampleResults sixteenOptions 2))) [?c] =
        Inr (exampleResults sixteenOptions 2)
      \<and> AllNonPendingPodsScheduled (exampleResults sixteenOptions 2)
      \<and> 2 \<le> length (NewNodeClaims (exampleResults sixteenOptions 2))"
    by (simp add: exampleEnv_def exampleResults_def)
  have rejected: "computeConsolidation (exampleEnv (\<lambda>cs. Inr (exampleResults sixteenOptions 2))) [?c] =
      Inr ((Command_zero, None),
           publishIfSingle [?c] (CantRemoveWithoutCreating (length (NewNodeClaims (exampleResults sixteenOptions 2)))))"
    using two computeConsolidation_at_most_one_replacement
      [of "exampleEnv (\<lambda>cs. Inr (exampleResults sixteenOptions 2))" "[?c]"
          "exampleResults sixteenOptions 2"]
    by blast
  have one: "length (replacements \<lparr>candidates = [?c],
      replacements = [\<lparr>Requirements = spotRequirements,
                       InstanceTypeOptions = take 15 sixteenOptions\<rparr>]\<rparr>) \<le> 1"
    using computeConsolidation_sixteenOptions computeConsolidation_at_most_one_replacement
      [of "exampleEnv (\<lambda>cs. Inr (exampleResults sixteenOptions 1))" "[?c]" _
          "\<lparr>candidates = [?c],
            replacements = [\<lparr>Requirements = spotRequirements,
                             InstanceTypeOptions = take 15 sixteenOptions\<rparr>]\<rparr>" None "[]"]
    by blast
  show ?thesis
    using rejected one
    by (simp add: publishIfSingle_def publishUnconsolidatable_def exampleCandidate_def
        exampleResults_def)
qed





text \<open>
  What \<^verbatim>\<open>computeSpotToSpotConsolidation\<close> does for a single candidate when the feature is
  enabled: with no cheaper option or fewer than 15 of them it abandons; otherwise the replacement
  keeps the first 15 cheaper options, in the order in which the simulator listed them.
\<close>

lemma computeSpotToSpotConsolidation_single_candidate:
  assumes "SpotToSpotConsolidation env" "NewNodeClaims results = nc # others"
  shows "computeSpotToSpotConsolidation env [c] results price =
    (let reqs = Requirements_Add (Requirements nc) (NewRequirementIn CapacityTypeLabelKey [CapacityTypeSpot]);
         options = filterByPrice env (Compatible env (InstanceTypeOptions nc) reqs) reqs price
     in if length options = 0 then
          Inr ((Command_zero, None), [publishUnconsolidatable c CantReplaceSpotWithCheaperSpot])
        else if length options < 15 then
          Inr ((Command_zero, None), [publishUnconsolidatable c (SpotToSpotRequires 15 (length options))])
        else
          Inr ((\<lparr>candidates = [c],
                 replacements = nc\<lparr>Requirements := reqs, InstanceTypeOptions := take 15 options\<rparr> # others\<rparr>,
                None), []))"
  using assms
  by (simp add: computeSpotToSpotConsolidation_def Let_def lo_Slice_def
      MinInstanceTypesForSpotToSpotConsolidation_def publishIfSingle_def)

text \<open>
  Claim C1, on the failing input. A single spot candidate priced 100 and a replacement with the
  sixteen example options, all cheaper, listed from price 16 down to price 1, the feature being
  enabled: \<^verbatim>\<open>computeSpotToSpotConsolidation\<close> returns a command whose single replacement keeps
  the first fifteen options of the list, that is the options priced 16 down to 2. This list is not
  ascending by price, and it leaves out the cheapest option, \<open>p01\<close>, which passed the price
  filter.
\<close>

theorem computeSpotToSpotConsolidation_keeps_first_15_not_cheapest:
  "computeSpotToSpotConsolidation (exampleEnv (\<lambda>cs. Inr (exampleResults sixteenOptions 1)))
      [exampleCandidate ''n1'' underutilizedPool] (exampleResults sixteenOptions 1) 100 =
     Inr ((\<lparr>candidates = [exampleCandidate ''n1'' underutilizedPool],
            replacements = [\<lparr>Requirements = spotRequirements,
                             InstanceTypeOptions = take 15 sixteenOptions\<rparr>]\<rparr>, None), [])
   \<and> map InstanceType_Name (take 15 sixteenOptions) =
       [''p16'', ''p15'', ''p14'', ''p13'', ''p12'', ''p11'', ''p10'', ''p09'',
        ''p08'', ''p07'', ''p06'', ''p05'', ''p04'', ''p03'', ''p02'']
   \<and> map (\<lambda>it. launchPrice (exampleEnv (\<lambda>cs. Inr (exampleResults sixteenOptions 1))) it spotRequirements)
         (take 15 sixteenOptions) =
       [16, 15, 14, 13, 12, 11, 10, 9, 8, 7, 6, 5, 4, 3, 2]
   \<and> spotOption ''p01'' 1 \<in> set (filterByPrice (exampleEnv (\<lambda>cs. Inr (exampleResults sixteenOptions 1)))
         (Compatible (exampleEnv (\<lambda>cs. Inr (exampleResults sixteenOptions 1))) sixteenOptions spotRequirements)
         spotRequirements 100)
   \<and> launchPrice (exampleEnv (\<lambda>cs. Inr (exampleResults sixteenOptions 1))) (spotOption ''p01'' 1)
         spotRequirements = 1
   \<and> spotOption ''p01'' 1 \<notin> set (take 15 sixteenOptions)"
proof -
  have run: "computeSpotToSpotConsolidation (exampleEnv (\<lambda>cs. Inr (exampleResults sixteenOptions 1)))
      [exampleCandidate ''n1'' underutilizedPool] (exampleResults sixteenOptions 1) 100 =
     Inr ((\<lparr>candidates = [exampleCandidate ''n1'' underutilizedPool],
            replacements = [\<lparr>Requirements = spotRequirements,
                             InstanceTypeOptions = take 15 sixteenOptions\<rparr>]\<rparr>, None), [])"
    by (rule computeSpotToSpotConsolidation_sixteenOptions)
  have names: "map InstanceType_Name (take 15 sixteenOptions) =
       [''p16'', ''p15'', ''p14'', ''p13'', ''p12'', ''p11'', ''p10'', ''p09'',
        ''p08'', ''p07'', ''p06'', ''p05'', ''p04'', ''p03'', ''p02'']"
    by (simp add: sixteenOptions_def spotOption_def)
  have prices: "map (\<lambda>it. launchPrice (exampleEnv (\<lambda>cs. Inr (exampleResults sixteenOptions 1))) it spotRequirements)
         (take 15 sixteenOptions) = [16, 15, 14, 13, 12, 11, 10, 9, 8, 7, 6, 5, 4, 3, 2]"
    by (simp add: sixteenOptions_def spotOption_def exampleEnv_def)
  have kept: "spotOption ''p01'' 1 \<in> set (filterByPrice (exampleEnv (\<lambda>cs. Inr (exampleResults sixteenOptions 1)))
         (Compatible (exampleEnv (\<lambda>cs. Inr (exampleResults sixteenOptions 1))) sixteenOptions spotRequirements)
         spotRequirements 100)"
    unfolding Compatible_sixteenOptions filterByPrice_sixteenOptions
    by (simp add: sixteenOptions_def)
  have cheapest: "launchPrice (exampleEnv (\<lambda>cs. Inr (exampleResults sixteenOptions 1))) (spotOption ''p01'' 1)
         spotRequirements = 1"
    by (simp add: exampleEnv_def spotOption_def)
  have dropped: "spotOption ''p01'' 1 \<notin> set (take 15 sixteenOptions)"
    by (simp add: sixteenOptions_def spotOption_def)
  show ?thesis
    using run names prices kept cheapest dropped by blast
qed

end
